theory Spec2Isabelle
  imports Main
begin

section \<open>Data model\<close>

text \<open>
  The server keeps two package-level maps, \<^verbatim>\<open>gpsLocations\<close> (device id to
  \<^verbatim>\<open>GPSLocation\<close>) and \<^verbatim>\<open>devices\<close> (device id to bool). The float type is a
  type parameter \<open>'f\<close>: the handlers only store and print the value that
  \<^verbatim>\<open>strconv.ParseFloat\<close> hands them. The struct \<^verbatim>\<open>DeviceState\<close> is declared in the
  source and used nowhere.
\<close>

record 'f GPSLocation =
  ID :: string
  Lat :: 'f
  Lon :: 'f

record SSEMessage =
  Type :: string
  Message :: string

record 'f globals =
  gpsLocations :: "string \<rightharpoonup> 'f GPSLocation"
  devices :: "string \<rightharpoonup> bool"

definition init_globals :: "'f globals" where
  "init_globals = \<lparr>gpsLocations = Map.empty, devices = Map.empty\<rparr>"

subsection \<open>The request and the response\<close>

text \<open>
  \<^verbatim>\<open>r.URL.Query()\<close> is a \<^verbatim>\<open>url.Values\<close>, a map from a key to the list of its
  values; \<^verbatim>\<open>Get\<close> returns the first value of the key, and the empty string when
  the key has none.
\<close>

type_synonym Values = "string \<rightharpoonup> string list"

definition Get :: "Values \<Rightarrow> string \<Rightarrow> string" where
  "Get v key = (case v key of None \<Rightarrow> [] | Some [] \<Rightarrow> [] | Some (x # _) \<Rightarrow> x)"

text \<open>
  What a handler leaves in its \<^verbatim>\<open>http.ResponseWriter\<close>: the status code and the
  body. \<^verbatim>\<open>http.Error\<close> sets the code and prints the message with
  \<^verbatim>\<open>Fprintln\<close>; a first \<^verbatim>\<open>Fprintf\<close> on the writer answers with status 200.
\<close>

record response =
  status :: nat
  body :: string

definition http_Error :: "string \<Rightarrow> nat \<Rightarrow> response" where
  "http_Error msg code = \<lparr>status = code, body = msg @ [CHR 0x0A]\<rparr>"

definition StatusBadRequest :: nat where
  "StatusBadRequest = 400"

definition StatusOK :: nat where
  "StatusOK = 200"

definition fmt_bool :: "bool \<Rightarrow> string" where
  \<comment> \<open>the verb \<^verbatim>\<open>%v\<close> of package fmt on a bool\<close>
  "fmt_bool b = (if b then ''true'' else ''false'')"

text \<open>
  Everything one call of a handler does: the globals afterwards, the response,
  the lines handed to the logger and the events sent into \<^verbatim>\<open>broker.Notifier\<close>.
\<close>

record 'f outcome =
  after :: "'f globals"
  reply :: response
  logged :: "string list"
  notified :: "SSEMessage list"

definition rejected :: "'f globals \<Rightarrow> string \<Rightarrow> 'f outcome" where
  \<comment> \<open>\<^verbatim>\<open>http.Error(w, msg, http.StatusBadRequest); return\<close>\<close>
  "rejected g msg =
     \<lparr>after = g, reply = http_Error msg StatusBadRequest, logged = [], notified = []\<rparr>"

section \<open>The handlers with the event broker (unnamed/part\_000)\<close>

definition broadcast :: "string \<Rightarrow> string \<Rightarrow> SSEMessage" where
  \<comment> \<open>the message whose JSON encoding \<^verbatim>\<open>broadcast\<close> sends into \<^verbatim>\<open>broker.Notifier\<close>\<close>
  "broadcast msgType msgContent = \<lparr>Type = msgType, Message = msgContent\<rparr>"

text \<open>
  \<^verbatim>\<open>strconv.ParseFloat\<close> and the verb \<^verbatim>\<open>%.6f\<close> belong to Go's library and are
  parameters of the model: \<open>ParseFloat s = None\<close> stands for a non-nil error.
  The send into \<^verbatim>\<open>broker.Notifier\<close> is recorded in \<open>notified\<close>; the Go code waits
  at that send while the one-slot buffer of the channel is occupied.
\<close>

definition gpsHandler ::
  "(string \<Rightarrow> 'f option) \<Rightarrow> ('f \<Rightarrow> string) \<Rightarrow> Values \<Rightarrow> 'f globals \<Rightarrow> 'f outcome" where
  "gpsHandler ParseFloat fmt6 query g =
     (let ident = Get query ''id'';
          latStr = Get query ''lat'';
          lonStr = Get query ''lon''
      in if ident = [] then rejected g ''Missing id param''
         else case ParseFloat latStr of
           None \<Rightarrow> rejected g ''Invalid lat param''
         | Some lat \<Rightarrow>
            (case ParseFloat lonStr of
               None \<Rightarrow> rejected g ''Invalid lon param''
             | Some lon \<Rightarrow>
                (let logMsg = ''Location update received for '' @ ident @ '' ''
                                @ fmt6 lat @ '', '' @ fmt6 lon
                 in \<lparr>after = g\<lparr>gpsLocations :=
                               (gpsLocations g)(ident \<mapsto> \<lparr>ID = ident, Lat = lat, Lon = lon\<rparr>)\<rparr>,
                     reply = \<lparr>status = StatusOK,
                              body = ''GPS updated for '' @ ident @ '': '' @ fmt6 lat
                                       @ '', '' @ fmt6 lon @ [CHR 0x0A]\<rparr>,
                     logged = [logMsg],
                     notified = [broadcast ''gps'' logMsg]\<rparr>)))"

text \<open>\<^verbatim>\<open>strconv.ParseBool\<close> is a parameter as well.\<close>

definition updateHandler ::
  "(string \<Rightarrow> bool option) \<Rightarrow> Values \<Rightarrow> 'f globals \<Rightarrow> 'f outcome" where
  "updateHandler ParseBool query g =
     (let ident = Get query ''id'';
          val = Get query ''value''
      in if ident = [] then rejected g ''Missing id param''
         else if val = [] then rejected g ''Missing value param''
         else case ParseBool val of
           None \<Rightarrow> rejected g ''Invalid boolean value''
         | Some parsed \<Rightarrow>
            (let logMsg = (if parsed then ''Attendance registered for '' @ ident
                           else ''Attendance unregistered for '' @ ident)
             in \<lparr>after = g\<lparr>devices := (devices g)(ident \<mapsto> parsed)\<rparr>,
                 reply = \<lparr>status = StatusOK,
                          body = ''Device '' @ ident @ '' set to '' @ fmt_bool parsed
                                   @ [CHR 0x0A]\<rparr>,
                 logged = [logMsg],
                 notified = [broadcast ''update'' logMsg]\<rparr>))"

section \<open>The handlers without the broker (main.go)\<close>

definition gpsHandler_main_go ::
  "(string \<Rightarrow> 'f option) \<Rightarrow> ('f \<Rightarrow> string) \<Rightarrow> Values \<Rightarrow> 'f globals \<Rightarrow> 'f outcome" where
  "gpsHandler_main_go ParseFloat fmt6 query g =
     (let ident = Get query ''id'';
          latStr = Get query ''lat'';
          lonStr = Get query ''lon''
      in if ident = [] then rejected g ''Missing id param''
         else case ParseFloat latStr of
           None \<Rightarrow> rejected g ''Invalid lat param''
         | Some lat \<Rightarrow>
            (case ParseFloat lonStr of
               None \<Rightarrow> rejected g ''Invalid lon param''
             | Some lon \<Rightarrow>
                \<lparr>after = g\<lparr>gpsLocations :=
                            (gpsLocations g)(ident \<mapsto> \<lparr>ID = ident, Lat = lat, Lon = lon\<rparr>)\<rparr>,
                 reply = \<lparr>status = StatusOK,
                          body = ''GPS updated for '' @ ident @ '': '' @ fmt6 lat
                                   @ '', '' @ fmt6 lon @ [CHR 0x0A]\<rparr>,
                 logged = [''GPS Update: Device '' @ ident @ '' at '' @ fmt6 lat
                             @ '', '' @ fmt6 lon @ [CHR 0x0A]],
                 notified = []\<rparr>))"

definition updateHandler_main_go ::
  "(string \<Rightarrow> bool option) \<Rightarrow> Values \<Rightarrow> 'f globals \<Rightarrow> 'f outcome" where
  "updateHandler_main_go ParseBool query g =
     (let ident = Get query ''id'';
          val = Get query ''value''
      in if ident = [] then rejected g ''Missing id param''
         else if val = [] then rejected g ''Missing value param''
         else case ParseBool val of
           None \<Rightarrow> rejected g ''Invalid boolean value''
         | Some parsed \<Rightarrow>
            \<lparr>after = g\<lparr>devices := (devices g)(ident \<mapsto> parsed)\<rparr>,
             reply = \<lparr>status = StatusOK,
                      body = ''Device '' @ ident @ '' set to '' @ fmt_bool parsed
                               @ [CHR 0x0A]\<rparr>,
             logged = [''Device '' @ ident @ '' -> '' @ fmt_bool parsed @ [CHR 0x0A]],
             notified = []\<rparr>)"

section \<open>Requests in sequence\<close>

text \<open>
  \<^verbatim>\<open>main\<close> routes \<^verbatim>\<open>/update\<close> to \<^verbatim>\<open>updateHandler\<close> and \<^verbatim>\<open>/gps\<close> to
  \<^verbatim>\<open>gpsHandler\<close>. Each handler writes its map under that map's mutex, so the
  writes of concurrent requests happen one after the other; \<open>serve\<close> runs a
  list of requests in that order, from the globals the handlers share. The
  routes \<^verbatim>\<open>/events\<close> and \<^verbatim>\<open>/\<close> of the version with the broker touch neither map.
\<close>

datatype request = Update Values | Gps Values

fun handle ::
  "(string \<Rightarrow> bool option) \<Rightarrow> (string \<Rightarrow> 'f option) \<Rightarrow> ('f \<Rightarrow> string)
     \<Rightarrow> request \<Rightarrow> 'f globals \<Rightarrow> 'f outcome" where
  "handle ParseBool ParseFloat fmt6 (Update query) g = updateHandler ParseBool query g"
| "handle ParseBool ParseFloat fmt6 (Gps query) g = gpsHandler ParseFloat fmt6 query g"

fun handle_main_go ::
  "(string \<Rightarrow> bool option) \<Rightarrow> (string \<Rightarrow> 'f option) \<Rightarrow> ('f \<Rightarrow> string)
     \<Rightarrow> request \<Rightarrow> 'f globals \<Rightarrow> 'f outcome" where
  "handle_main_go ParseBool ParseFloat fmt6 (Update query) g =
     updateHandler_main_go ParseBool query g"
| "handle_main_go ParseBool ParseFloat fmt6 (Gps query) g =
     gpsHandler_main_go ParseFloat fmt6 query g"

fun serve :: "(request \<Rightarrow> 'f globals \<Rightarrow> 'f outcome) \<Rightarrow> request list \<Rightarrow> 'f globals \<Rightarrow> 'f globals" where
  "serve h [] g = g"
| "serve h (r # rs) g = serve h rs (after (h r g))"

definition ids_agree :: "'f globals \<Rightarrow> bool" where
  \<comment> \<open>every record of \<^verbatim>\<open>gpsLocations\<close> carries the key it is stored under\<close>
  "ids_agree g = (\<forall>k loc. gpsLocations g k = Some loc \<longrightarrow> ID loc = k)"

section \<open>Library functions at concrete inputs\<close>

text \<open>
  Go's \<^verbatim>\<open>strconv.ParseBool\<close> accepts exactly twelve spellings. It instantiates
  the parameter \<open>ParseBool\<close> wherever a handler is run on a concrete request.
\<close>

definition strconv_ParseBool :: "string \<Rightarrow> bool option" where
  "strconv_ParseBool str =
     (if str \<in> set [''1'', ''t'', ''T'', ''true'', ''TRUE'', ''True''] then Some True
      else if str \<in> set [''0'', ''f'', ''F'', ''false'', ''FALSE'', ''False''] then Some False
      else None)"

text \<open>
  For \<^verbatim>\<open>strconv.ParseFloat\<close> and \<^verbatim>\<open>%.6f\<close> the concrete runs use exact decimals
  in place of binary64: a sign, the digits and the number of digits after the
  point. \<open>decimal_ParseFloat\<close> reads a plain decimal literal (optional sign,
  digits, optional point and digits) and rejects everything else, among it the
  empty string; Go's parser also reads exponents, hexadecimal literals,
  underscores, infinities and NaN, and rounds to binary64. \<open>decimal_fmt6\<close>
  prints six digits after the point, rounding half to even.
\<close>

record decimal =
  negative :: bool
  digits :: nat
  places :: nat

definition digit_of :: "char \<Rightarrow> nat option" where
  "digit_of c =
     (let n = (of_char c :: nat) in if 48 \<le> n \<and> n \<le> 57 then Some (n - 48) else None)"

fun read_digits :: "string \<Rightarrow> nat \<Rightarrow> nat option" where
  "read_digits [] acc = Some acc"
| "read_digits (c # cs) acc =
     (case digit_of c of None \<Rightarrow> None | Some d \<Rightarrow> read_digits cs (10 * acc + d))"

definition decimal_ParseFloat :: "string \<Rightarrow> decimal option" where
  "decimal_ParseFloat s =
     (let (neg, num) = (case s of [] \<Rightarrow> (False, [])
                        | c # r \<Rightarrow> if c = CHR ''-'' then (True, r)
                                   else if c = CHR ''+'' then (False, r) else (False, s));
          whole = takeWhile (\<lambda>c. c \<noteq> CHR ''.'') num;
          frac = drop 1 (dropWhile (\<lambda>c. c \<noteq> CHR ''.'') num)
      in if whole = [] \<and> frac = [] then None
         else case read_digits (whole @ frac) 0 of
           None \<Rightarrow> None
         | Some n \<Rightarrow> Some \<lparr>negative = neg, digits = n, places = length frac\<rparr>)"

definition digit_char :: "nat \<Rightarrow> char" where
  "digit_char d = ''0123456789'' ! (d mod 10)"

fun show_nat :: "nat \<Rightarrow> string" where
  "show_nat n = (if n < 10 then [digit_char n]
                 else show_nat (n div 10) @ [digit_char (n mod 10)])"

declare show_nat.simps [simp del]

definition show_micro :: "nat \<Rightarrow> string" where
  \<comment> \<open>the six digits after the point\<close>
  "show_micro m =
     [digit_char (m div 100000), digit_char (m div 10000), digit_char (m div 1000),
      digit_char (m div 100), digit_char (m div 10), digit_char m]"

definition round_half_even :: "nat \<Rightarrow> nat \<Rightarrow> nat" where
  \<comment> \<open>\<open>n / k\<close> rounded to the nearest natural number, a tie to the even one\<close>
  "round_half_even n k =
     (let q = n div k; r = n mod k
      in if k < 2 * r \<or> (2 * r = k \<and> odd q) then q + 1 else q)"

definition decimal_fmt6 :: "decimal \<Rightarrow> string" where
  "decimal_fmt6 d =
     (let micro = (if places d \<le> 6 then digits d * 10 ^ (6 - places d)
                   else round_half_even (digits d) (10 ^ (places d - 6)))
      in (if negative d then ''-'' else []) @ show_nat (micro div 1000000) @ ''.''
           @ show_micro (micro mod 1000000))"

section \<open>The broker\<close>

text \<open>
  A \<^verbatim>\<open>Broker\<close> has the buffered channel \<^verbatim>\<open>Notifier\<close> (capacity 1), the
  unbuffered channels \<^verbatim>\<open>newClients\<close> and \<^verbatim>\<open>closingClients\<close>, and the map
  \<^verbatim>\<open>clients\<close>, whose values are always \<^verbatim>\<open>true\<close>. A client channel is named by
  a number. \<open>Notifier\<close> is the content of the buffer; \<open>clients\<close> lists the keys
  of the map, each once. A send on an unbuffered channel and the matching
  receive happen together, so those channels hold nothing between two steps.
\<close>

type_synonym chan = nat

record 'e Broker =
  Notifier :: "'e list"
  clients :: "chan list"

definition NewBroker :: "'e Broker" where
  "NewBroker = \<lparr>Notifier = [], clients = []\<rparr>"

definition Notifier_cap :: nat where
  \<comment> \<open>\<^verbatim>\<open>make(chan []byte, 1)\<close>\<close>
  "Notifier_cap = 1"

text \<open>
  Besides the broker, the state holds the \<^verbatim>\<open>ServeHTTP\<close> goroutines: the
  channels whose goroutine is blocked in the \<^verbatim>\<open>select\<close> of its loop, ready to
  receive, and the messages each goroutine has written to its connection.
\<close>

record 'e hub =
  broker :: "'e Broker"
  receiving :: "chan set"
  written :: "chan \<Rightarrow> 'e list"

definition init_hub :: "'e hub" where
  "init_hub = \<lparr>broker = NewBroker, receiving = {}, written = (\<lambda>c. [])\<rparr>"

definition try_send :: "'e \<Rightarrow> chan \<Rightarrow> 'e hub \<Rightarrow> 'e hub" where
  \<comment> \<open>\<^verbatim>\<open>select { case clientMessageChan <- event: default: }\<close> on an unbuffered
      channel: the send happens when the receiver is waiting, and then the
      receiver leaves its \<^verbatim>\<open>select\<close> to write the message\<close>
  "try_send event c h =
     (if c \<in> receiving h
      then h\<lparr>receiving := receiving h - {c},
             written := (written h)(c := written h c @ [event])\<rparr>
      else h)"

definition listen_newClients :: "chan \<Rightarrow> 'e Broker \<Rightarrow> 'e Broker" where
  \<comment> \<open>\<^verbatim>\<open>broker.clients[s] = true\<close>\<close>
  "listen_newClients s b =
     b\<lparr>clients := (if s \<in> set (clients b) then clients b else clients b @ [s])\<rparr>"

definition listen_closingClients :: "chan \<Rightarrow> 'e Broker \<Rightarrow> 'e Broker" where
  \<comment> \<open>\<^verbatim>\<open>delete(broker.clients, s)\<close>\<close>
  "listen_closingClients s b = b\<lparr>clients := removeAll s (clients b)\<rparr>"

definition listen_Notifier :: "'e hub \<Rightarrow> 'e hub option" where
  \<comment> \<open>\<^verbatim>\<open>case event := <-broker.Notifier\<close> and the loop over \<^verbatim>\<open>broker.clients\<close>\<close>
  "listen_Notifier h =
     (case Notifier (broker h) of
        [] \<Rightarrow> None
      | event # rest \<Rightarrow>
          Some (fold (try_send event) (clients (broker h))
                  (h\<lparr>broker := (broker h)\<lparr>Notifier := rest\<rparr>\<rparr>)))"

text \<open>
  The steps of the system. \<open>None\<close> means that the step cannot happen in this
  state: the goroutine that would take it is blocked, or is not at that place.
  \<^item> \<open>Publish event\<close>: \<^verbatim>\<open>broadcast\<close> sends into \<^verbatim>\<open>broker.Notifier\<close>, which needs a
    free slot in the buffer;
  \<^item> \<open>Subscribe c\<close>: \<^verbatim>\<open>ServeHTTP\<close> makes the channel \<open>c\<close> and hands it to
    \<^verbatim>\<open>listen\<close> over \<^verbatim>\<open>newClients\<close>;
  \<^item> \<open>Await c\<close>: the goroutine of \<open>c\<close> reaches the \<^verbatim>\<open>select\<close> of its loop;
  \<^item> \<open>Close c\<close>: that \<^verbatim>\<open>select\<close> takes the \<^verbatim>\<open>notify\<close> case, \<^verbatim>\<open>ServeHTTP\<close> returns
    and its deferred send over \<^verbatim>\<open>closingClients\<close> makes \<^verbatim>\<open>listen\<close> delete \<open>c\<close>;
  \<^item> \<open>Dispatch\<close>: \<^verbatim>\<open>listen\<close> takes an event from \<^verbatim>\<open>broker.Notifier\<close> and offers it
    to every client.
\<close>

datatype 'e action = Publish 'e | Subscribe chan | Await chan | Close chan | Dispatch

fun step :: "'e action \<Rightarrow> 'e hub \<Rightarrow> 'e hub option" where
  "step (Publish event) h =
     (if length (Notifier (broker h)) < Notifier_cap
      then Some (h\<lparr>broker := (broker h)\<lparr>Notifier := Notifier (broker h) @ [event]\<rparr>\<rparr>)
      else None)"
| "step (Subscribe c) h =
     (if c \<in> set (clients (broker h)) then None
      else Some (h\<lparr>broker := listen_newClients c (broker h)\<rparr>))"
| "step (Await c) h =
     (if c \<in> set (clients (broker h)) then Some (h\<lparr>receiving := insert c (receiving h)\<rparr>)
      else None)"
| "step (Close c) h =
     (if c \<in> receiving h
      then Some (h\<lparr>receiving := receiving h - {c},
                   broker := listen_closingClients c (broker h)\<rparr>)
      else None)"
| "step Dispatch h = listen_Notifier h"

fun run :: "'e action list \<Rightarrow> 'e hub \<Rightarrow> 'e hub option" where
  "run [] h = Some h"
| "run (a # as) h = (case step a h of None \<Rightarrow> None | Some h' \<Rightarrow> run as h')"

definition written_after :: "'e action list \<Rightarrow> chan \<Rightarrow> 'e list option" where
  \<comment> \<open>what the goroutine of \<open>c\<close> has written once the steps have run from the start\<close>
  "written_after as c = (case run as init_hub of None \<Rightarrow> None | Some h \<Rightarrow> Some (written h c))"

section \<open>Facts about the handlers\<close>

lemma Get_upd_other: "key \<noteq> k \<Longrightarrow> Get (query(k := v)) key = Get query key"
  by (simp add: Get_def)

lemma Get_absent: "query key = None \<Longrightarrow> Get query key = []"
  by (simp add: Get_def)

lemma reply_updateHandler_main_go:
  "reply (updateHandler_main_go ParseBool query g) = reply (updateHandler ParseBool query g)"
  by (simp add: updateHandler_main_go_def updateHandler_def Let_def split: option.splits)

lemma after_updateHandler_main_go:
  "after (updateHandler_main_go ParseBool query g) = after (updateHandler ParseBool query g)"
  by (simp add: updateHandler_main_go_def updateHandler_def Let_def split: option.splits)

lemma reply_gpsHandler_main_go:
  "reply (gpsHandler_main_go ParseFloat fmt6 query g) = reply (gpsHandler ParseFloat fmt6 query g)"
  by (simp add: gpsHandler_main_go_def gpsHandler_def Let_def split: option.splits)

lemma after_gpsHandler_main_go:
  "after (gpsHandler_main_go ParseFloat fmt6 query g) = after (gpsHandler ParseFloat fmt6 query g)"
  by (simp add: gpsHandler_main_go_def gpsHandler_def Let_def split: option.splits)

lemma after_handle_main_go:
  "after (handle_main_go ParseBool ParseFloat fmt6 r g) = after (handle ParseBool ParseFloat fmt6 r g)"
  by (cases r) (simp_all add: after_updateHandler_main_go after_gpsHandler_main_go)

lemma after_updateHandler_ok:
  assumes "Get query ''id'' \<noteq> []" and "Get query ''value'' \<noteq> []"
    and "ParseBool (Get query ''value'') = Some b"
  shows "after (updateHandler ParseBool query g) = g\<lparr>devices := (devices g)(Get query ''id'' \<mapsto> b)\<rparr>"
  using assms by (simp add: updateHandler_def Let_def)

lemma after_gpsHandler_ok:
  assumes "Get query ''id'' \<noteq> []" and "ParseFloat (Get query ''lat'') = Some lat"
    and "ParseFloat (Get query ''lon'') = Some lon"
  shows "after (gpsHandler ParseFloat fmt6 query g) =
           g\<lparr>gpsLocations := (gpsLocations g)
                (Get query ''id'' \<mapsto> \<lparr>ID = Get query ''id'', Lat = lat, Lon = lon\<rparr>)\<rparr>"
  using assms by (simp add: gpsHandler_def Let_def)

lemma status_rejected: "status (reply (rejected g msg)) = StatusBadRequest"
  by (simp add: rejected_def http_Error_def)

lemma after_rejected: "after (rejected g msg) = g"
  by (simp add: rejected_def)

lemma status_codes_differ: "StatusBadRequest \<noteq> StatusOK"
  by (simp add: StatusBadRequest_def StatusOK_def)

text \<open>The library instances on the inputs of the spec's scenarios.\<close>

lemma strconv_ParseBool_examples:
  "strconv_ParseBool [] = None"
  "strconv_ParseBool ''true'' = Some True"
  "strconv_ParseBool ''0'' = Some False"
  "strconv_ParseBool ''maybe'' = None"
  by (simp_all add: strconv_ParseBool_def)

lemma decimal_ParseFloat_examples:
  "decimal_ParseFloat [] = None"
  "decimal_ParseFloat ''abc'' = None"
  "decimal_ParseFloat ''1.0'' = Some \<lparr>negative = False, digits = 10, places = 1\<rparr>"
  "decimal_ParseFloat ''37.7749'' = Some \<lparr>negative = False, digits = 377749, places = 4\<rparr>"
  "decimal_ParseFloat ''-122.4194'' = Some \<lparr>negative = True, digits = 1224194, places = 4\<rparr>"
  by (simp_all add: decimal_ParseFloat_def digit_of_def)

lemma decimal_fmt6_examples:
  "decimal_fmt6 \<lparr>negative = False, digits = 10, places = 1\<rparr> = ''1.000000''"
  "decimal_fmt6 \<lparr>negative = False, digits = 377749, places = 4\<rparr> = ''37.774900''"
  "decimal_fmt6 \<lparr>negative = True, digits = 1224194, places = 4\<rparr> = ''-122.419400''"
  by (simp_all add: decimal_fmt6_def Let_def show_nat.simps show_micro_def digit_char_def)

lemma ids_agree_init: "ids_agree init_globals"
  by (simp add: ids_agree_def init_globals_def)

lemma ids_agree_handle:
  assumes "ids_agree g"
  shows "ids_agree (after (handle ParseBool ParseFloat fmt6 r g))"
proof (cases r)
  case (Update query)
  have "gpsLocations (after (updateHandler ParseBool query g)) = gpsLocations g"
    by (simp add: updateHandler_def Let_def rejected_def split: option.splits)
  with assms Update show ?thesis
    by (simp add: ids_agree_def)
next
  case (Gps query)
  with assms show ?thesis
    by (auto simp: ids_agree_def gpsHandler_def Let_def rejected_def split: option.splits if_splits)
qed

lemma ids_agree_serve:
  assumes "\<And>r g. P g \<Longrightarrow> P (after (h r g))" and "P g"
  shows "P (serve h rs g)"
  using assms(2)
proof (induction rs arbitrary: g)
  case Nil
  then show ?case by simp
next
  case (Cons r rs)
  from Cons.prems have "P (after (h r g))" by (rule assms(1))
  then show ?case by (simp add: Cons.IH)
qed

section \<open>The attendance and location stores\<close>

text \<open>
  C1. When the id is not empty and the value parameter parses as a boolean
  \<open>b\<close>, \<^verbatim>\<open>updateHandler\<close> (the spec's handleAttendance) leaves \<open>b\<close> in
  \<^verbatim>\<open>devices\<close> under the id: a read of that key gives exactly \<open>b\<close>, whatever was
  stored there before, and the map is the old one with this one entry
  replaced. The parser is any function that rejects the empty string, as
  \<^verbatim>\<open>strconv.ParseBool\<close> does. Both versions of the handler do the same.
\<close>

theorem updateHandler_stores_parsed_value:
  assumes "ParseBool [] = None"
    and "Get query ''id'' \<noteq> []"
    and "ParseBool (Get query ''value'') = Some b"
  shows "devices (after (updateHandler ParseBool query g)) (Get query ''id'') = Some b
       \<and> devices (after (updateHandler ParseBool query g)) = (devices g)(Get query ''id'' \<mapsto> b)
       \<and> after (updateHandler_main_go ParseBool query g) = after (updateHandler ParseBool query g)"
proof -
  from assms(1,3) have "Get query ''value'' \<noteq> []"
    by auto
  with assms(2) have "after (updateHandler ParseBool query g) =
      g\<lparr>devices := (devices g)(Get query ''id'' \<mapsto> b)\<rparr>"
    using assms(3) by (rule after_updateHandler_ok)
  then show ?thesis
    by (simp add: after_updateHandler_main_go)
qed

theorem updateHandler_stores_parsed_value_witness:
  "strconv_ParseBool [] = None
   \<and> Get [''id'' \<mapsto> [''dev-1''], ''value'' \<mapsto> [''true'']] ''id'' \<noteq> []
   \<and> strconv_ParseBool (Get [''id'' \<mapsto> [''dev-1''], ''value'' \<mapsto> [''true'']] ''value'') = Some True
   \<and> devices (after (updateHandler strconv_ParseBool
          [''id'' \<mapsto> [''dev-1''], ''value'' \<mapsto> [''true'']]
          \<lparr>gpsLocations = (Map.empty :: string \<rightharpoonup> decimal GPSLocation),
           devices = [''dev-1'' \<mapsto> False]\<rparr>)) ''dev-1'' = Some True"
  using updateHandler_stores_parsed_value
    [of strconv_ParseBool "[''id'' \<mapsto> [''dev-1''], ''value'' \<mapsto> [''true'']]" True
        "\<lparr>gpsLocations = (Map.empty :: string \<rightharpoonup> decimal GPSLocation),
          devices = [''dev-1'' \<mapsto> False]\<rparr>"]
  by (simp add: Get_def strconv_ParseBool_examples)

text \<open>
  C2. When the id is not empty and both \<^verbatim>\<open>lat\<close> and \<^verbatim>\<open>lon\<close> parse,
  \<^verbatim>\<open>gpsHandler\<close> (the spec's handleLocation) leaves under the id a record
  with exactly the two parsed values, replacing whatever was stored there;
  the other entries stay. The parser is any function. Both versions of the
  handler do the same.
\<close>

theorem gpsHandler_stores_parsed_pair:
  assumes "Get query ''id'' \<noteq> []"
    and "ParseFloat (Get query ''lat'') = Some lat"
    and "ParseFloat (Get query ''lon'') = Some lon"
  shows "gpsLocations (after (gpsHandler ParseFloat fmt6 query g)) (Get query ''id'')
           = Some \<lparr>ID = Get query ''id'', Lat = lat, Lon = lon\<rparr>
       \<and> gpsLocations (after (gpsHandler ParseFloat fmt6 query g))
           = (gpsLocations g)(Get query ''id'' \<mapsto> \<lparr>ID = Get query ''id'', Lat = lat, Lon = lon\<rparr>)
       \<and> after (gpsHandler_main_go ParseFloat fmt6 query g)
           = after (gpsHandler ParseFloat fmt6 query g)"
  by (simp add: after_gpsHandler_ok [OF assms] after_gpsHandler_main_go)

theorem gpsHandler_stores_parsed_pair_witness:
  "Get [''id'' \<mapsto> [''dev-2''], ''lat'' \<mapsto> [''37.7749''], ''lon'' \<mapsto> [''-122.4194'']] ''id'' \<noteq> []
   \<and> decimal_ParseFloat ''37.7749'' = Some \<lparr>negative = False, digits = 377749, places = 4\<rparr>
   \<and> decimal_ParseFloat ''-122.4194'' = Some \<lparr>negative = True, digits = 1224194, places = 4\<rparr>
   \<and> gpsLocations (after (gpsHandler decimal_ParseFloat decimal_fmt6
          [''id'' \<mapsto> [''dev-2''], ''lat'' \<mapsto> [''37.7749''], ''lon'' \<mapsto> [''-122.4194'']]
          \<lparr>gpsLocations = [''dev-2'' \<mapsto> \<lparr>ID = ''dev-2'',
               Lat = \<lparr>negative = False, digits = 0, places = 0\<rparr>,
               Lon = \<lparr>negative = False, digits = 0, places = 0\<rparr>\<rparr>],
           devices = Map.empty\<rparr>)) ''dev-2''
       = Some \<lparr>ID = ''dev-2'',
               Lat = \<lparr>negative = False, digits = 377749, places = 4\<rparr>,
               Lon = \<lparr>negative = True, digits = 1224194, places = 4\<rparr>\<rparr>"
  using gpsHandler_stores_parsed_pair
    [of "[''id'' \<mapsto> [''dev-2''], ''lat'' \<mapsto> [''37.7749''], ''lon'' \<mapsto> [''-122.4194'']]"
        decimal_ParseFloat "\<lparr>negative = False, digits = 377749, places = 4\<rparr>"
        "\<lparr>negative = True, digits = 1224194, places = 4\<rparr>" decimal_fmt6
        "\<lparr>gpsLocations = [''dev-2'' \<mapsto> \<lparr>ID = ''dev-2'',
               Lat = \<lparr>negative = False, digits = 0, places = 0\<rparr>,
               Lon = \<lparr>negative = False, digits = 0, places = 0\<rparr>\<rparr>],
           devices = Map.empty\<rparr>"]
  by (simp add: Get_def decimal_ParseFloat_examples)

section \<open>Rejected requests\<close>

text \<open>
  C3. \<^verbatim>\<open>updateHandler\<close> answers 400 \<^verbatim>\<open>Missing id param\<close> when the id is empty,
  whatever the other parameters are; 400 \<^verbatim>\<open>Missing value param\<close> when the id
  is there and the value is empty (so an empty value always gets one of the
  two missing-parameter answers, the spec's MissingField); 400
  \<^verbatim>\<open>Invalid boolean value\<close> (the spec's InvalidBoolean) when both are there and
  the value does not parse. It answers 200 in exactly the remaining case, and
  never with another status. Both versions of the handler answer alike.
\<close>

theorem updateHandler_failure_cases:
  "(Get query ''id'' = [] \<longrightarrow>
      reply (updateHandler ParseBool query g) = http_Error ''Missing id param'' StatusBadRequest)
   \<and> (Get query ''id'' \<noteq> [] \<and> Get query ''value'' = [] \<longrightarrow>
      reply (updateHandler ParseBool query g) = http_Error ''Missing value param'' StatusBadRequest)
   \<and> (Get query ''value'' = [] \<longrightarrow>
      reply (updateHandler ParseBool query g) = http_Error ''Missing id param'' StatusBadRequest
      \<or> reply (updateHandler ParseBool query g) = http_Error ''Missing value param'' StatusBadRequest)
   \<and> (Get query ''id'' \<noteq> [] \<and> Get query ''value'' \<noteq> [] \<and> ParseBool (Get query ''value'') = None \<longrightarrow>
      reply (updateHandler ParseBool query g) = http_Error ''Invalid boolean value'' StatusBadRequest)
   \<and> (status (reply (updateHandler ParseBool query g)) = StatusOK \<longleftrightarrow>
      Get query ''id'' \<noteq> [] \<and> Get query ''value'' \<noteq> [] \<and> ParseBool (Get query ''value'') \<noteq> None)
   \<and> (status (reply (updateHandler ParseBool query g)) = StatusOK
      \<or> status (reply (updateHandler ParseBool query g)) = StatusBadRequest)
   \<and> reply (updateHandler_main_go ParseBool query g) = reply (updateHandler ParseBool query g)"
  by (simp add: updateHandler_def Let_def rejected_def http_Error_def status_codes_differ
      reply_updateHandler_main_go split: option.splits)

theorem updateHandler_failure_cases_witness:
  "reply (updateHandler strconv_ParseBool [''value'' \<mapsto> [''true'']] (init_globals :: decimal globals))
     = http_Error ''Missing id param'' StatusBadRequest
   \<and> reply (updateHandler strconv_ParseBool [''id'' \<mapsto> [''dev-1'']] (init_globals :: decimal globals))
     = http_Error ''Missing value param'' StatusBadRequest
   \<and> reply (updateHandler strconv_ParseBool [''id'' \<mapsto> [''dev-1''], ''value'' \<mapsto> [''maybe'']]
        (init_globals :: decimal globals))
     = http_Error ''Invalid boolean value'' StatusBadRequest
   \<and> status (reply (updateHandler strconv_ParseBool [''id'' \<mapsto> [''dev-1''], ''value'' \<mapsto> [''0'']]
        (init_globals :: decimal globals))) = StatusOK"
  using
    updateHandler_failure_cases [of "[''value'' \<mapsto> [''true'']]" strconv_ParseBool
      "init_globals :: decimal globals"]
    updateHandler_failure_cases [of "[''id'' \<mapsto> [''dev-1'']]" strconv_ParseBool
      "init_globals :: decimal globals"]
    updateHandler_failure_cases [of "[''id'' \<mapsto> [''dev-1''], ''value'' \<mapsto> [''maybe'']]"
      strconv_ParseBool "init_globals :: decimal globals"]
    updateHandler_failure_cases [of "[''id'' \<mapsto> [''dev-1''], ''value'' \<mapsto> [''0'']]"
      strconv_ParseBool "init_globals :: decimal globals"]
  by (simp add: Get_def strconv_ParseBool_examples)

text \<open>
  C4. A handler that answers 400 (a missing parameter, a value that is not a
  boolean, a coordinate that is not a number) returns the globals it was
  given: both maps are as they were, for every prior state. This holds for
  \<^verbatim>\<open>updateHandler\<close> and \<^verbatim>\<open>gpsHandler\<close> in both versions.
\<close>

theorem rejected_request_keeps_stores:
  "(status (reply (updateHandler ParseBool query g)) = StatusBadRequest \<longrightarrow>
      after (updateHandler ParseBool query g) = g)
   \<and> (status (reply (gpsHandler ParseFloat fmt6 query g)) = StatusBadRequest \<longrightarrow>
      after (gpsHandler ParseFloat fmt6 query g) = g)
   \<and> (status (reply (updateHandler_main_go ParseBool query g)) = StatusBadRequest \<longrightarrow>
      after (updateHandler_main_go ParseBool query g) = g)
   \<and> (status (reply (gpsHandler_main_go ParseFloat fmt6 query g)) = StatusBadRequest \<longrightarrow>
      after (gpsHandler_main_go ParseFloat fmt6 query g) = g)"
proof -
  have u: "status (reply (updateHandler ParseBool query g)) = StatusBadRequest \<longrightarrow>
      after (updateHandler ParseBool query g) = g"
    by (simp add: updateHandler_def Let_def rejected_def status_codes_differ [symmetric]
        split: option.splits)
  have p: "status (reply (gpsHandler ParseFloat fmt6 query g)) = StatusBadRequest \<longrightarrow>
      after (gpsHandler ParseFloat fmt6 query g) = g"
    by (simp add: gpsHandler_def Let_def rejected_def status_codes_differ [symmetric]
        split: option.splits)
  from u p show ?thesis
    by (simp add: reply_updateHandler_main_go after_updateHandler_main_go
        reply_gpsHandler_main_go after_gpsHandler_main_go)
qed

theorem rejected_request_keeps_stores_witness:
  "status (reply (updateHandler strconv_ParseBool [''id'' \<mapsto> [''''], ''value'' \<mapsto> [''true'']]
      \<lparr>gpsLocations = (Map.empty :: string \<rightharpoonup> decimal GPSLocation),
       devices = [''dev-1'' \<mapsto> True]\<rparr>)) = StatusBadRequest
   \<and> after (updateHandler strconv_ParseBool [''id'' \<mapsto> [''''], ''value'' \<mapsto> [''true'']]
      \<lparr>gpsLocations = (Map.empty :: string \<rightharpoonup> decimal GPSLocation),
       devices = [''dev-1'' \<mapsto> True]\<rparr>)
     = \<lparr>gpsLocations = Map.empty, devices = [''dev-1'' \<mapsto> True]\<rparr>
   \<and> status (reply (gpsHandler decimal_ParseFloat decimal_fmt6
        [''id'' \<mapsto> [''dev-3''], ''lat'' \<mapsto> [''abc''], ''lon'' \<mapsto> [''1.0'']]
        \<lparr>gpsLocations = Map.empty, devices = [''dev-1'' \<mapsto> True]\<rparr>)) = StatusBadRequest
   \<and> after (gpsHandler decimal_ParseFloat decimal_fmt6
        [''id'' \<mapsto> [''dev-3''], ''lat'' \<mapsto> [''abc''], ''lon'' \<mapsto> [''1.0'']]
        \<lparr>gpsLocations = Map.empty, devices = [''dev-1'' \<mapsto> True]\<rparr>)
     = \<lparr>gpsLocations = Map.empty, devices = [''dev-1'' \<mapsto> True]\<rparr>"
  using rejected_request_keeps_stores
    [of strconv_ParseBool "[''id'' \<mapsto> [''''], ''value'' \<mapsto> [''true'']]"
        "\<lparr>gpsLocations = (Map.empty :: string \<rightharpoonup> decimal GPSLocation),
          devices = [''dev-1'' \<mapsto> True]\<rparr>"
        decimal_ParseFloat decimal_fmt6]
    rejected_request_keeps_stores
    [of strconv_ParseBool "[''id'' \<mapsto> [''dev-3''], ''lat'' \<mapsto> [''abc''], ''lon'' \<mapsto> [''1.0'']]"
        "\<lparr>gpsLocations = (Map.empty :: string \<rightharpoonup> decimal GPSLocation),
          devices = [''dev-1'' \<mapsto> True]\<rparr>"
        decimal_ParseFloat decimal_fmt6]
  by (simp add: updateHandler_def gpsHandler_def Get_def Let_def rejected_def http_Error_def
      decimal_ParseFloat_examples)

text \<open>
  C10. With an id, \<^verbatim>\<open>gpsHandler\<close> parses \<^verbatim>\<open>lat\<close> first. When \<^verbatim>\<open>lat\<close> does not
  parse, the answer is 400 \<^verbatim>\<open>Invalid lat param\<close> and the globals stay,
  whatever the \<^verbatim>\<open>lon\<close> parameter is (\<open>v\<close> is any value of it, or none). An
  absent \<^verbatim>\<open>lat\<close> is read as the empty string, which a parser that rejects the
  empty string (as \<^verbatim>\<open>strconv.ParseFloat\<close> does) turns into the same answer:
  there is no missing-parameter answer for \<^verbatim>\<open>lat\<close>. \<^verbatim>\<open>lon\<close> is parsed once
  \<^verbatim>\<open>lat\<close> has parsed. Both versions of the handler behave alike.
\<close>

theorem gpsHandler_lat_checked_first:
  assumes "Get query ''id'' \<noteq> []"
  shows "(ParseFloat (Get query ''lat'') = None \<longrightarrow>
            reply (gpsHandler ParseFloat fmt6 (query(''lon'' := v)) g)
              = http_Error ''Invalid lat param'' StatusBadRequest
            \<and> after (gpsHandler ParseFloat fmt6 (query(''lon'' := v)) g) = g)
       \<and> (ParseFloat [] = None \<and> query ''lat'' = None \<longrightarrow>
            reply (gpsHandler ParseFloat fmt6 (query(''lon'' := v)) g)
              = http_Error ''Invalid lat param'' StatusBadRequest)
       \<and> (ParseFloat (Get query ''lat'') \<noteq> None \<and> ParseFloat (Get query ''lon'') = None \<longrightarrow>
            reply (gpsHandler ParseFloat fmt6 query g)
              = http_Error ''Invalid lon param'' StatusBadRequest)
       \<and> reply (gpsHandler_main_go ParseFloat fmt6 (query(''lon'' := v)) g)
            = reply (gpsHandler ParseFloat fmt6 (query(''lon'' := v)) g)
       \<and> after (gpsHandler_main_go ParseFloat fmt6 (query(''lon'' := v)) g)
            = after (gpsHandler ParseFloat fmt6 (query(''lon'' := v)) g)"
proof -
  have id': "Get (query(''lon'' := v)) ''id'' = Get query ''id''"
    by (rule Get_upd_other) simp
  have lat': "Get (query(''lon'' := v)) ''lat'' = Get query ''lat''"
    by (rule Get_upd_other) simp
  have a: "ParseFloat (Get query ''lat'') = None \<longrightarrow>
      gpsHandler ParseFloat fmt6 (query(''lon'' := v)) g = rejected g ''Invalid lat param''"
    using assms by (simp add: gpsHandler_def Let_def id' lat')
  have b: "ParseFloat [] = None \<and> query ''lat'' = None \<longrightarrow> ParseFloat (Get query ''lat'') = None"
    by (simp add: Get_absent)
  have c: "ParseFloat (Get query ''lat'') \<noteq> None \<and> ParseFloat (Get query ''lon'') = None \<longrightarrow>
      reply (gpsHandler ParseFloat fmt6 query g) = http_Error ''Invalid lon param'' StatusBadRequest"
    using assms by (auto simp: gpsHandler_def Let_def rejected_def)
  from a b c show ?thesis
    by (simp add: rejected_def reply_gpsHandler_main_go after_gpsHandler_main_go)
qed

theorem gpsHandler_lat_checked_first_witness:
  "Get [''id'' \<mapsto> [''dev-3''], ''lat'' \<mapsto> [''abc'']] ''id'' \<noteq> []
   \<and> decimal_ParseFloat (Get [''id'' \<mapsto> [''dev-3''], ''lat'' \<mapsto> [''abc'']] ''lat'') = None
   \<and> reply (gpsHandler decimal_ParseFloat decimal_fmt6
        [''id'' \<mapsto> [''dev-3''], ''lat'' \<mapsto> [''abc''], ''lon'' \<mapsto> [''1.0'']] init_globals)
     = http_Error ''Invalid lat param'' StatusBadRequest
   \<and> decimal_ParseFloat [] = None
   \<and> reply (gpsHandler decimal_ParseFloat decimal_fmt6
        [''id'' \<mapsto> [''dev-3''], ''lon'' \<mapsto> [''1.0'']] init_globals)
     = http_Error ''Invalid lat param'' StatusBadRequest
   \<and> reply (gpsHandler decimal_ParseFloat decimal_fmt6
        [''id'' \<mapsto> [''dev-3''], ''lat'' \<mapsto> [''1.0''], ''lon'' \<mapsto> [''abc'']] init_globals)
     = http_Error ''Invalid lon param'' StatusBadRequest"
  using
    gpsHandler_lat_checked_first
      [of "[''id'' \<mapsto> [''dev-3''], ''lat'' \<mapsto> [''abc'']]" decimal_ParseFloat decimal_fmt6
          "Some [''1.0'']" init_globals]
    gpsHandler_lat_checked_first
      [of "[''id'' \<mapsto> [''dev-3'']]" decimal_ParseFloat decimal_fmt6
          "Some [''1.0'']" init_globals]
    gpsHandler_lat_checked_first
      [of "[''id'' \<mapsto> [''dev-3''], ''lat'' \<mapsto> [''1.0''], ''lon'' \<mapsto> [''abc'']]"
          decimal_ParseFloat decimal_fmt6 "Some [''abc'']" init_globals]
  by (simp add: Get_def decimal_ParseFloat_examples)

section \<open>The two maps\<close>

text \<open>
  C6. \<^verbatim>\<open>updateHandler\<close> never changes \<^verbatim>\<open>gpsLocations\<close> and \<^verbatim>\<open>gpsHandler\<close> never
  changes \<^verbatim>\<open>devices\<close>, whether the request is accepted or rejected, in both
  versions of the handlers.
\<close>

theorem handlers_keep_other_map:
  "gpsLocations (after (updateHandler ParseBool query g)) = gpsLocations g
   \<and> devices (after (gpsHandler ParseFloat fmt6 query g)) = devices g
   \<and> gpsLocations (after (updateHandler_main_go ParseBool query g)) = gpsLocations g
   \<and> devices (after (gpsHandler_main_go ParseFloat fmt6 query g)) = devices g"
proof -
  have "gpsLocations (after (updateHandler ParseBool query g)) = gpsLocations g"
    by (simp add: updateHandler_def Let_def rejected_def split: option.splits)
  moreover have "devices (after (gpsHandler ParseFloat fmt6 query g)) = devices g"
    by (simp add: gpsHandler_def Let_def rejected_def split: option.splits)
  ultimately show ?thesis
    by (simp add: after_updateHandler_main_go after_gpsHandler_main_go)
qed

text \<open>
  C9. Every record of \<^verbatim>\<open>gpsLocations\<close> carries in \<^verbatim>\<open>ID\<close> the key it is stored
  under. This holds for the empty map the program starts with, each request
  (to either handler, accepted or rejected) keeps it, and so it holds after
  any sequence of requests, in both versions of the handlers.
\<close>

theorem gpsLocations_ids_agree:
  "ids_agree (init_globals :: 'f globals)
   \<and> (ids_agree g \<longrightarrow> ids_agree (after (handle ParseBool ParseFloat fmt6 r g))
        \<and> ids_agree (after (handle_main_go ParseBool ParseFloat fmt6 r g)))
   \<and> ids_agree (serve (handle ParseBool ParseFloat fmt6) rs (init_globals :: 'f globals))
   \<and> ids_agree (serve (handle_main_go ParseBool ParseFloat fmt6) rs (init_globals :: 'f globals))"
proof -
  have step: "ids_agree x \<Longrightarrow> ids_agree (after (handle ParseBool ParseFloat fmt6 q x))"
    for q and x :: "'f globals"
    by (rule ids_agree_handle)
  have step': "ids_agree x \<Longrightarrow> ids_agree (after (handle_main_go ParseBool ParseFloat fmt6 q x))"
    for q and x :: "'f globals"
    by (simp add: after_handle_main_go ids_agree_handle)
  have "ids_agree (serve (handle ParseBool ParseFloat fmt6) rs (init_globals :: 'f globals))"
    by (rule ids_agree_serve [where P = ids_agree]) (simp_all add: step ids_agree_init)
  moreover
  have "ids_agree (serve (handle_main_go ParseBool ParseFloat fmt6) rs (init_globals :: 'f globals))"
    by (rule ids_agree_serve [where P = ids_agree]) (simp_all add: step' ids_agree_init)
  ultimately show ?thesis
    using step [of g r] step' [of g r] by (simp add: ids_agree_init)
qed

theorem gpsLocations_ids_agree_witness:
  "gpsLocations (after (handle strconv_ParseBool decimal_ParseFloat decimal_fmt6
        (Update [''id'' \<mapsto> [''dev-9''], ''value'' \<mapsto> [''true'']])
        \<lparr>gpsLocations = [''dev-9'' \<mapsto> \<lparr>ID = ''dev-9'',
           Lat = \<lparr>negative = False, digits = 10, places = 1\<rparr>,
           Lon = \<lparr>negative = False, digits = 10, places = 1\<rparr>\<rparr>], devices = Map.empty\<rparr>)) ''dev-9''
     = Some \<lparr>ID = ''dev-9'', Lat = \<lparr>negative = False, digits = 10, places = 1\<rparr>,
             Lon = \<lparr>negative = False, digits = 10, places = 1\<rparr>\<rparr>
   \<and> gpsLocations (serve (handle strconv_ParseBool decimal_ParseFloat decimal_fmt6)
        [Gps [''id'' \<mapsto> [''dev-2''], ''lat'' \<mapsto> [''1.0''], ''lon'' \<mapsto> [''1.0'']],
         Update [''id'' \<mapsto> [''dev-1''], ''value'' \<mapsto> [''true'']],
         Gps [''id'' \<mapsto> [''dev-2''], ''lat'' \<mapsto> [''37.7749''], ''lon'' \<mapsto> [''-122.4194'']]]
        init_globals) ''dev-2''
     = Some \<lparr>ID = ''dev-2'', Lat = \<lparr>negative = False, digits = 377749, places = 4\<rparr>,
             Lon = \<lparr>negative = True, digits = 1224194, places = 4\<rparr>\<rparr>
   \<and> map_option ID (gpsLocations (serve (handle strconv_ParseBool decimal_ParseFloat decimal_fmt6)
        [Gps [''id'' \<mapsto> [''dev-2''], ''lat'' \<mapsto> [''1.0''], ''lon'' \<mapsto> [''1.0'']],
         Update [''id'' \<mapsto> [''dev-1''], ''value'' \<mapsto> [''true'']],
         Gps [''id'' \<mapsto> [''dev-2''], ''lat'' \<mapsto> [''37.7749''], ''lon'' \<mapsto> [''-122.4194'']]]
        init_globals) ''dev-2'') = Some ''dev-2''"
proof -
  let ?g = "\<lparr>gpsLocations = [''dev-9'' \<mapsto> \<lparr>ID = ''dev-9'',
        Lat = \<lparr>negative = False, digits = 10, places = 1\<rparr>,
        Lon = \<lparr>negative = False, digits = 10, places = 1\<rparr>\<rparr>], devices = Map.empty\<rparr>"
  let ?rs = "[Gps [''id'' \<mapsto> [''dev-2''], ''lat'' \<mapsto> [''1.0''], ''lon'' \<mapsto> [''1.0'']],
         Update [''id'' \<mapsto> [''dev-1''], ''value'' \<mapsto> [''true'']],
         Gps [''id'' \<mapsto> [''dev-2''], ''lat'' \<mapsto> [''37.7749''], ''lon'' \<mapsto> [''-122.4194'']]]"
  let ?G = "serve (handle strconv_ParseBool decimal_ParseFloat decimal_fmt6) ?rs
              (init_globals :: decimal globals)"
  note t = gpsLocations_ids_agree
      [of ?g strconv_ParseBool decimal_ParseFloat decimal_fmt6
          "Update [''id'' \<mapsto> [''dev-9''], ''value'' \<mapsto> [''true'']]" ?rs]
  have g: "ids_agree ?g"
    by (simp add: ids_agree_def)
  have one: "gpsLocations (after (handle strconv_ParseBool decimal_ParseFloat decimal_fmt6
        (Update [''id'' \<mapsto> [''dev-9''], ''value'' \<mapsto> [''true'']]) ?g)) ''dev-9''
     = Some \<lparr>ID = ''dev-9'', Lat = \<lparr>negative = False, digits = 10, places = 1\<rparr>,
             Lon = \<lparr>negative = False, digits = 10, places = 1\<rparr>\<rparr>"
    by (simp add: updateHandler_def Get_def Let_def strconv_ParseBool_examples)
  have run: "gpsLocations ?G ''dev-2''
     = Some \<lparr>ID = ''dev-2'', Lat = \<lparr>negative = False, digits = 377749, places = 4\<rparr>,
             Lon = \<lparr>negative = True, digits = 1224194, places = 4\<rparr>\<rparr>"
    by (simp add: gpsHandler_def updateHandler_def Get_def Let_def init_globals_def
        decimal_ParseFloat_examples strconv_ParseBool_examples)
  from t g have "ids_agree ?G"
    by blast
  then have "\<forall>k loc. gpsLocations ?G k = Some loc \<longrightarrow> ID loc = k"
    by (simp only: ids_agree_def)
  with run have "ID \<lparr>ID = ''dev-2'', Lat = \<lparr>negative = False, digits = 377749, places = 4\<rparr>,
             Lon = \<lparr>negative = True, digits = 1224194, places = 4\<rparr>\<rparr> = ''dev-2''"
    by blast
  with one run show ?thesis
    by (simp only: option.map)
qed

section \<open>The response body\<close>

text \<open>
  C5, as the spec states it: a successful \<^verbatim>\<open>updateHandler\<close> answers with exactly
  \<^verbatim>\<open>Device {id} set to {bool}\<close>. The format string of the handler ends in a
  newline, so the body is one character longer: for \<^verbatim>\<open>id=dev-1\<close>,
  \<^verbatim>\<open>value=true\<close> the request is accepted and the body is not the string of the
  spec but that string followed by a newline.
\<close>

theorem updateHandler_body_counterexample:
  "status (reply (updateHandler strconv_ParseBool [''id'' \<mapsto> [''dev-1''], ''value'' \<mapsto> [''true'']]
      (init_globals :: decimal globals))) = StatusOK
   \<and> body (reply (updateHandler strconv_ParseBool [''id'' \<mapsto> [''dev-1''], ''value'' \<mapsto> [''true'']]
      (init_globals :: decimal globals))) \<noteq> ''Device dev-1 set to true''
   \<and> body (reply (updateHandler strconv_ParseBool [''id'' \<mapsto> [''dev-1''], ''value'' \<mapsto> [''true'']]
      (init_globals :: decimal globals))) = ''Device dev-1 set to true'' @ [CHR 0x0A]"
  by (simp add: updateHandler_def Get_def Let_def strconv_ParseBool_examples fmt_bool_def)

text \<open>
  C5, amended: on success the body of \<^verbatim>\<open>updateHandler\<close> is
  \<^verbatim>\<open>Device {id} set to {bool}\<close> followed by a newline, with the boolean printed
  as \<^verbatim>\<open>true\<close> or \<^verbatim>\<open>false\<close>, and the body of \<^verbatim>\<open>gpsHandler\<close> is
  \<^verbatim>\<open>GPS updated for {id}: {lat}, {lon}\<close> followed by a newline, with both
  coordinates printed by \<^verbatim>\<open>%.6f\<close> (the parameter \<open>fmt6\<close>). Both versions of the
  handlers answer alike.
\<close>

theorem handlers_success_body:
  "(Get query ''id'' \<noteq> [] \<and> Get query ''value'' \<noteq> [] \<and> ParseBool (Get query ''value'') = Some b \<longrightarrow>
      reply (updateHandler ParseBool query g)
        = \<lparr>status = StatusOK,
           body = ''Device '' @ Get query ''id'' @ '' set to '' @ (if b then ''true'' else ''false'')
                    @ [CHR 0x0A]\<rparr>)
   \<and> (Get query ''id'' \<noteq> [] \<and> ParseFloat (Get query ''lat'') = Some lat
        \<and> ParseFloat (Get query ''lon'') = Some lon \<longrightarrow>
      reply (gpsHandler ParseFloat fmt6 query g)
        = \<lparr>status = StatusOK,
           body = ''GPS updated for '' @ Get query ''id'' @ '': '' @ fmt6 lat @ '', '' @ fmt6 lon
                    @ [CHR 0x0A]\<rparr>)
   \<and> reply (updateHandler_main_go ParseBool query g) = reply (updateHandler ParseBool query g)
   \<and> reply (gpsHandler_main_go ParseFloat fmt6 query g) = reply (gpsHandler ParseFloat fmt6 query g)"
  by (simp add: updateHandler_def gpsHandler_def Let_def fmt_bool_def
      reply_updateHandler_main_go reply_gpsHandler_main_go)

theorem handlers_success_body_witness:
  "body (reply (updateHandler strconv_ParseBool [''id'' \<mapsto> [''dev-1''], ''value'' \<mapsto> [''true'']]
      (init_globals :: decimal globals)))
     = ''Device dev-1 set to true'' @ [CHR 0x0A]
   \<and> body (reply (gpsHandler decimal_ParseFloat decimal_fmt6
        [''id'' \<mapsto> [''dev-2''], ''lat'' \<mapsto> [''37.7749''], ''lon'' \<mapsto> [''-122.4194'']] init_globals))
     = ''GPS updated for dev-2: 37.774900, -122.419400'' @ [CHR 0x0A]"
  using
    handlers_success_body
      [of "[''id'' \<mapsto> [''dev-1''], ''value'' \<mapsto> [''true'']]" strconv_ParseBool True
          "init_globals :: decimal globals" decimal_ParseFloat
          "\<lparr>negative = False, digits = 10, places = 1\<rparr>"
          "\<lparr>negative = False, digits = 10, places = 1\<rparr>" decimal_fmt6]
    handlers_success_body
      [of "[''id'' \<mapsto> [''dev-2''], ''lat'' \<mapsto> [''37.7749''], ''lon'' \<mapsto> [''-122.4194'']]"
          strconv_ParseBool True "init_globals :: decimal globals" decimal_ParseFloat
          "\<lparr>negative = False, digits = 377749, places = 4\<rparr>"
          "\<lparr>negative = True, digits = 1224194, places = 4\<rparr>" decimal_fmt6]
  by (simp add: Get_def strconv_ParseBool_examples decimal_ParseFloat_examples
      decimal_fmt6_examples)

section \<open>Facts about the broker\<close>

lemma try_send_broker: "broker (try_send ev c h) = broker h"
  by (simp add: try_send_def)

lemma fold_try_send_broker: "broker (fold (try_send ev) cs h) = broker h"
  by (induction cs arbitrary: h) (simp_all add: try_send_broker)

lemma fold_try_send_receiving: "receiving (fold (try_send ev) cs h) = receiving h - set cs"
proof (induction cs arbitrary: h)
  case Nil
  show ?case by simp
next
  case (Cons c cs)
  have "receiving (try_send ev c h) = receiving h - {c}"
    by (simp add: try_send_def)
  with Cons.IH [of "try_send ev c h"] show ?case
    by auto
qed

lemma fold_try_send_written:
  "written (fold (try_send ev) cs h) c =
     (if c \<in> set cs \<and> c \<in> receiving h then written h c @ [ev] else written h c)"
proof (induction cs arbitrary: h)
  case Nil
  show ?case by simp
next
  case (Cons x cs)
  show ?case
  proof (cases "x \<in> receiving h")
    case True
    then have "try_send ev x h =
        h\<lparr>receiving := receiving h - {x}, written := (written h)(x := written h x @ [ev])\<rparr>"
      by (simp add: try_send_def)
    with Cons.IH [of "try_send ev x h"] True show ?thesis
      by auto
  next
    case False
    then have "try_send ev x h = h"
      by (simp add: try_send_def)
    with Cons.IH [of h] False show ?thesis
      by auto
  qed
qed

lemma listen_Notifier_event:
  assumes "Notifier (broker h) = ev # rest"
  shows "listen_Notifier h =
           Some (fold (try_send ev) (clients (broker h)) (h\<lparr>broker := (broker h)\<lparr>Notifier := rest\<rparr>\<rparr>))"
  using assms by (simp add: listen_Notifier_def)

lemma listen_Notifier_SomeD:
  assumes "listen_Notifier h = Some h'"
  obtains ev rest where "Notifier (broker h) = ev # rest"
    and "h' = fold (try_send ev) (clients (broker h)) (h\<lparr>broker := (broker h)\<lparr>Notifier := rest\<rparr>\<rparr>)"
  using assms by (auto simp: listen_Notifier_def split: list.splits)

lemma step_keeps_capacity:
  assumes "step a h = Some h'" and "length (Notifier (broker h)) \<le> Notifier_cap"
  shows "length (Notifier (broker h')) \<le> Notifier_cap"
proof (cases a)
  case (Publish ev)
  with assms show ?thesis
    by (auto split: if_splits)
next
  case (Subscribe c)
  with assms show ?thesis
    by (auto simp: listen_newClients_def split: if_splits)
next
  case (Await c)
  with assms show ?thesis
    by (auto split: if_splits)
next
  case (Close c)
  with assms show ?thesis
    by (auto simp: listen_closingClients_def split: if_splits)
next
  case Dispatch
  with assms(1) have "listen_Notifier h = Some h'"
    by simp
  then obtain ev rest where "Notifier (broker h) = ev # rest"
    and "h' = fold (try_send ev) (clients (broker h)) (h\<lparr>broker := (broker h)\<lparr>Notifier := rest\<rparr>\<rparr>)"
    by (rule listen_Notifier_SomeD)
  with assms(2) show ?thesis
    by (simp add: fold_try_send_broker)
qed

lemma run_keeps_capacity:
  assumes "run as h = Some h'" and "length (Notifier (broker h)) \<le> Notifier_cap"
  shows "length (Notifier (broker h')) \<le> Notifier_cap"
  using assms
proof (induction as arbitrary: h)
  case Nil
  then show ?case by simp
next
  case (Cons a as)
  from Cons.prems(1) obtain h1 where s: "step a h = Some h1" and r: "run as h1 = Some h'"
    by (auto split: option.splits)
  from s Cons.prems(2) have "length (Notifier (broker h1)) \<le> Notifier_cap"
    by (rule step_keeps_capacity)
  with r show ?case
    by (rule Cons.IH)
qed

lemma init_hub_capacity: "length (Notifier (broker init_hub)) \<le> Notifier_cap"
  by (simp add: init_hub_def NewBroker_def)

section \<open>Publishing and delivery\<close>

text \<open>
  C7. In every state the system can reach: \<^verbatim>\<open>broadcast\<close> waits exactly when
  the buffer of \<^verbatim>\<open>Notifier\<close> is occupied, which does not depend on any
  listener. When the buffer holds an event, \<^verbatim>\<open>listen\<close> can take it whatever
  the listeners are doing, and that frees the buffer for the next
  \<^verbatim>\<open>broadcast\<close>. A registered client that is not waiting on its channel at
  that moment gets nothing (its copy is dropped), no client gets the event
  more than once, and the broker afterwards is the same whichever clients were
  waiting: nothing about a dropped copy is kept or handed back.
\<close>

theorem publish_never_waits_for_listener:
  assumes "run as init_hub = Some h"
  shows "(step (Publish e) h = None \<longleftrightarrow> Notifier (broker h) \<noteq> [])
       \<and> (Notifier (broker h) = ev # rest \<longrightarrow>
            (\<exists>h'. step Dispatch h = Some h'
               \<and> Notifier (broker h') = []
               \<and> step (Publish e) h' \<noteq> None
               \<and> (\<forall>c \<in> set (clients (broker h)). c \<notin> receiving h \<longrightarrow> written h' c = written h c)
               \<and> (\<forall>c. written h' c = written h c \<or> written h' c = written h c @ [ev])
               \<and> (\<forall>R. map_option broker (step Dispatch (h\<lparr>receiving := R\<rparr>)) = Some (broker h'))))"
proof -
  from assms init_hub_capacity have cap: "length (Notifier (broker h)) \<le> Notifier_cap"
    by (rule run_keeps_capacity)
  have blocked: "step (Publish e) h = None \<longleftrightarrow> Notifier (broker h) \<noteq> []"
    by (simp add: Notifier_cap_def)
  have dispatch: "\<exists>h'. step Dispatch h = Some h'
               \<and> Notifier (broker h') = []
               \<and> step (Publish e) h' \<noteq> None
               \<and> (\<forall>c \<in> set (clients (broker h)). c \<notin> receiving h \<longrightarrow> written h' c = written h c)
               \<and> (\<forall>c. written h' c = written h c \<or> written h' c = written h c @ [ev])
               \<and> (\<forall>R. map_option broker (step Dispatch (h\<lparr>receiving := R\<rparr>)) = Some (broker h'))"
    if full: "Notifier (broker h) = ev # rest"
  proof -
    let ?h0 = "h\<lparr>broker := (broker h)\<lparr>Notifier := rest\<rparr>\<rparr>"
    let ?h' = "fold (try_send ev) (clients (broker h)) ?h0"
    from full cap have rest: "rest = []"
      by (simp add: Notifier_cap_def)
    have 1: "step Dispatch h = Some ?h'"
      using full by (simp add: listen_Notifier_event)
    have b: "broker ?h' = (broker h)\<lparr>Notifier := []\<rparr>"
      by (simp add: fold_try_send_broker rest)
    have 2: "Notifier (broker ?h') = []"
      by (simp add: b)
    have 3: "step (Publish e) ?h' \<noteq> None"
      by (simp add: 2 Notifier_cap_def)
    have 4: "\<forall>c \<in> set (clients (broker h)). c \<notin> receiving h \<longrightarrow> written ?h' c = written h c"
      by (simp add: fold_try_send_written)
    have 5: "\<forall>c. written ?h' c = written h c \<or> written ?h' c = written h c @ [ev]"
      by (simp add: fold_try_send_written)
    have 6: "map_option broker (step Dispatch (h\<lparr>receiving := R\<rparr>)) = Some (broker ?h')" for R
      using full by (simp add: listen_Notifier_def fold_try_send_broker)
    from 1 2 3 4 5 6 show ?thesis
      by blast
  qed
  from blocked dispatch show ?thesis
    by blast
qed

theorem publish_never_waits_for_listener_witness:
  "run [Subscribe 1, Subscribe 2, Await 1, Publish ''first'']  init_hub
     = Some \<lparr>broker = \<lparr>Notifier = [''first''], clients = [1, 2]\<rparr>, receiving = {1},
             written = (\<lambda>c. [])\<rparr>
   \<and> step (Publish ''second'')
        \<lparr>broker = \<lparr>Notifier = [''first''], clients = [1, 2]\<rparr>, receiving = {1},
         written = (\<lambda>c. [])\<rparr> = None
   \<and> step Dispatch
        \<lparr>broker = \<lparr>Notifier = [''first''], clients = [1, 2]\<rparr>, receiving = {1},
         written = (\<lambda>c. [])\<rparr>
     = Some \<lparr>broker = \<lparr>Notifier = [], clients = [1, 2]\<rparr>, receiving = {},
             written = (\<lambda>c. [])(1 := [''first''])\<rparr>
   \<and> step (Publish ''second'')
        \<lparr>broker = \<lparr>Notifier = [], clients = [1, 2]\<rparr>, receiving = {},
         written = (\<lambda>c. [])(1 := [''first''])\<rparr> \<noteq> None
   \<and> written \<lparr>broker = \<lparr>Notifier = [], clients = [1, 2]\<rparr>, receiving = {},
         written = (\<lambda>c. [])(1 := [''first''])\<rparr> (2::nat) = ([] :: string list)"
proof -
  let ?H = "\<lparr>broker = \<lparr>Notifier = [''first''], clients = [1, 2]\<rparr>, receiving = {1},
             written = (\<lambda>c. [])\<rparr> :: string hub"
  let ?H' = "\<lparr>broker = \<lparr>Notifier = [], clients = [1, 2]\<rparr>, receiving = {},
             written = (\<lambda>c. [])(1 := [''first''])\<rparr> :: string hub"
  have r: "run [Subscribe 1, Subscribe 2, Await 1, Publish ''first''] init_hub = Some ?H"
    by (simp add: init_hub_def NewBroker_def Notifier_cap_def listen_newClients_def)
  have d: "step Dispatch ?H = Some ?H'"
    by (simp add: listen_Notifier_def try_send_def)
  note t = publish_never_waits_for_listener [OF r, of "''second''" "''first''" "[]"]
  have "Notifier (broker ?H) \<noteq> []"
    by simp
  with t have blocked: "step (Publish ''second'') ?H = None"
    by blast
  have n: "Notifier (broker ?H) = [''first'']"
    by simp
  from t n obtain h' where d': "step Dispatch ?H = Some h'"
    and p: "step (Publish ''second'') h' \<noteq> None"
    and w: "\<forall>c \<in> set (clients (broker ?H)). c \<notin> receiving ?H \<longrightarrow> written h' c = written ?H c"
    by blast
  from d d' have h': "h' = ?H'"
    by (simp only: option.inject)
  from w have w2: "written h' 2 = []"
    by simp
  from p have p': "step (Publish ''second'') ?H' \<noteq> None"
    unfolding h' .
  from w2 have w': "written ?H' 2 = []"
    unfolding h' .
  from r blocked d p' w' show ?thesis
    by blast
qed

text \<open>
  C8, as the spec states it: a subscriber registered before a publish gets
  exactly one copy, one registered after it never gets the event. Three runs
  from the start say otherwise. Client 1 registers, the event is published and
  dispatched before the client's goroutine waits on its channel: no copy.
  Client 1 registers, waits, gets a first event and is still writing it when a
  second event is published and dispatched: no copy of the second. The event
  is published and sits in the buffer, then client 1 registers and waits, then
  \<^verbatim>\<open>listen\<close> dispatches: the client, registered after the publish, gets it.
\<close>

theorem subscriber_delivery_counterexample:
  "written_after [Subscribe 1, Publish ''event'', Dispatch] 1 = Some []
   \<and> written_after [Subscribe 1, Await 1, Publish ''first'', Dispatch,
                     Publish ''second'', Dispatch] 1 = Some [''first'']
   \<and> written_after [Publish ''event'', Subscribe 1, Await 1, Dispatch] 1 = Some [''event'']"
  by (simp add: written_after_def init_hub_def NewBroker_def Notifier_cap_def
      listen_newClients_def listen_Notifier_def try_send_def)

text \<open>
  C8, amended: when \<^verbatim>\<open>listen\<close> dispatches an event, a client that is
  registered and waiting on its channel at that moment receives exactly one
  copy; a registered client that is not waiting, and a client that is not
  registered then (one that registers only after the dispatch), receives
  none. No other step of the system delivers anything.
\<close>

theorem dispatch_reaches_waiting_clients:
  assumes "step a h = Some h'"
  shows "(a = Dispatch \<longrightarrow>
            (\<exists>ev rest. Notifier (broker h) = ev # rest \<and> Notifier (broker h') = rest
               \<and> (\<forall>c. written h' c =
                     (if c \<in> set (clients (broker h)) \<and> c \<in> receiving h
                      then written h c @ [ev] else written h c))))
       \<and> (a \<noteq> Dispatch \<longrightarrow> written h' = written h)"
proof (cases a)
  case Dispatch
  with assms have "listen_Notifier h = Some h'"
    by simp
  then obtain ev rest where n: "Notifier (broker h) = ev # rest"
    and h': "h' = fold (try_send ev) (clients (broker h)) (h\<lparr>broker := (broker h)\<lparr>Notifier := rest\<rparr>\<rparr>)"
    by (rule listen_Notifier_SomeD)
  from h' have "Notifier (broker h') = rest"
    by (simp add: fold_try_send_broker)
  moreover from h' have "\<forall>c. written h' c =
      (if c \<in> set (clients (broker h)) \<and> c \<in> receiving h then written h c @ [ev] else written h c)"
    by (simp add: fold_try_send_written)
  ultimately show ?thesis
    using n Dispatch by blast
next
  case (Publish ev)
  with assms show ?thesis by (auto split: if_splits)
next
  case (Subscribe c)
  with assms show ?thesis by (auto split: if_splits)
next
  case (Await c)
  with assms show ?thesis by (auto split: if_splits)
next
  case (Close c)
  with assms show ?thesis by (auto split: if_splits)
qed

theorem dispatch_reaches_waiting_clients_witness:
  "step Dispatch \<lparr>broker = \<lparr>Notifier = [''event''], clients = [1, 2]\<rparr>, receiving = {1},
                  written = (\<lambda>c. [])\<rparr>
     = Some \<lparr>broker = \<lparr>Notifier = [], clients = [1, 2]\<rparr>, receiving = {},
             written = (\<lambda>c. [])(1 := [''event''])\<rparr>
   \<and> ((\<lambda>c. [])(1 := [''event''])) (1::nat) = [''event'']
   \<and> ((\<lambda>c. [])(1 := [''event''])) (2::nat) = []
   \<and> ((\<lambda>c. [])(1 := [''event''])) (3::nat) = []"
proof -
  have s: "step Dispatch \<lparr>broker = \<lparr>Notifier = [''event''], clients = [1, 2]\<rparr>, receiving = {1},
                  written = (\<lambda>c. [])\<rparr>
     = Some \<lparr>broker = \<lparr>Notifier = [], clients = [1, 2]\<rparr>, receiving = {},
             written = (\<lambda>c. [])(1 := [''event''])\<rparr>"
    by (simp add: listen_Notifier_def try_send_def)
  from dispatch_reaches_waiting_clients [OF s] s show ?thesis
    by simp
qed

end
